theory Spec2Isabelle
  imports Main "HOL-Library.Word"
begin

unbundle bit_operations_syntax

section \<open>Data model of the OpenPGP card record (piv/gpg\_data.go)\<close>

text \<open>
  A Go \<open>byte\<close> is an 8-bit word, \<open>uint16\<close> and \<open>uint32\<close> are 16- and 32-bit words.
  A Go \<open>string\<close> is a sequence of bytes, which is what a HOL \<open>string\<close> is.
\<close>

type_synonym byte = "8 word"
type_synonym uint16 = "16 word"
type_synonym uint32 = "32 word"

text \<open>
  The sentinel errors of the package. An error built with \<open>fmt.Errorf("...: %w", e)\<close>
  is modelled by the sentinel it wraps (what \<open>errors.Is\<close> observes); the message text
  is left out. \<open>RuntimePanic\<close> is not an error value of the program: it stands for the Go
  runtime panic of an index or slice expression that is out of range.
\<close>

datatype error =
    ErrKeyNotPresent
  | ErrNoSuchTag
  | ErrNoSuchAlgorithm
  | ErrUnknownKeyOrigin
  | ErrNotFound
  | ErrTooShort
  | RuntimePanic

definition bind_res :: "error + 'a \<Rightarrow> ('a \<Rightarrow> error + 'b) \<Rightarrow> error + 'b" where
  "bind_res m f = (case m of Inl e \<Rightarrow> Inl e | Inr x \<Rightarrow> f x)"

text \<open>Go's index expression \<open>b[i]\<close> on a slice of length \<open>length b\<close>, with \<open>i\<close> a Go \<open>int\<close>.\<close>

definition go_index :: "'a list \<Rightarrow> int \<Rightarrow> error + 'a" where
  "go_index b i =
     (if 0 \<le> i \<and> i < int (length b) then Inr (b ! nat i) else Inl RuntimePanic)"

text \<open>
  Go's slice expression \<open>b[lo:hi]\<close>. The slices of this program are values of the tag
  map or sub-slices of them; the model takes their capacity to be their length.
\<close>

definition go_slice :: "'a list \<Rightarrow> int \<Rightarrow> int \<Rightarrow> error + 'a list" where
  "go_slice b lo hi =
     (if 0 \<le> lo \<and> lo \<le> hi \<and> hi \<le> int (length b)
      then Inr (take (nat hi - nat lo) (drop (nat lo) b))
      else Inl RuntimePanic)"

type_synonym KeyOrigin = nat
type_synonym SecureMessagingAlgorithm = byte

text \<open>The key slots, with their ordinals 0 to 3 (\<open>int(keyType)\<close>).\<close>

datatype KeyType = SignatureKey | DecryptionKey | AuthenticationKey | AttestKey

fun ordinal :: "KeyType \<Rightarrow> int" where
  "ordinal SignatureKey = 0"
| "ordinal DecryptionKey = 1"
| "ordinal AuthenticationKey = 2"
| "ordinal AttestKey = 3"

record GpgData =
  Reader :: string
  Serial :: string
  SerialInt :: uint32
  LongName :: string
  CardHolder :: string
  Rid :: string
  Application :: string
  Version :: string
  Manufacturer :: string
  AppletVersion :: string
  SecureMessagingSupported :: bool
  SecureMessaging :: SecureMessagingAlgorithm
  GetChallengeSupported :: bool
  MaximumChallengeLength :: uint16
  KeyImportSupported :: bool
  PWStatusChangeable :: bool
  PrivateUseDOsSupported :: bool
  AlgorithmAttributesChangeable :: bool
  SupportsPSODecryptionEncryptionWithAES :: bool
  KDFSupported :: bool
  PinBlock2Supported :: bool
  MSECommandSupported :: bool
  MaximumCardholderCertificatesLength :: uint16
  MaximumSpecialDOsLength :: uint16
  tlvValues :: "string \<rightharpoonup> byte list"
  debug :: bool

section \<open>The 1-based byte accessors\<close>

text \<open>
  \<open>getBytesWith1BasedIndexing(b, start, end)\<close> and \<open>getByteWith1BasedIndexing(b, index)\<close>.
  The source \<open>b\<close> is \<open>None\<close> for Go's nil slice. The positions are Go \<open>int\<close>s; they are
  modelled as unbounded integers: \<open>start - 1\<close> and \<open>index - 1\<close> wrap around only at the
  least 64-bit integer, where the wrapped value is out of range as the unwrapped one is.
\<close>

definition getBytesWith1BasedIndexing :: "byte list option \<Rightarrow> int \<Rightarrow> int \<Rightarrow> error + byte list" where
  "getBytesWith1BasedIndexing b start end =
     (case b of
        None \<Rightarrow> Inl ErrNotFound
      | Some bs \<Rightarrow>
          if start > int (length bs) \<or> end > int (length bs) then Inl ErrNotFound
          else go_slice bs (start - 1) end)"

definition getByteWith1BasedIndexing :: "byte list option \<Rightarrow> int \<Rightarrow> error + byte" where
  "getByteWith1BasedIndexing b index =
     (case b of
        None \<Rightarrow> Inl ErrNotFound
      | Some bs \<Rightarrow>
          if index > int (length bs) then Inl ErrNotFound
          else go_index bs (index - 1))"

definition go_len :: "'a list option \<Rightarrow> int" where
  "go_len b = (case b of None \<Rightarrow> 0 | Some bs \<Rightarrow> int (length bs))"

section \<open>Formatting (the \<open>fmt\<close> verbs the record uses)\<close>

definition hexdigit :: "nat \<Rightarrow> char" where
  "hexdigit n = ''0123456789ABCDEF'' ! n"

definition decdigit :: "nat \<Rightarrow> char" where
  "decdigit n = ''0123456789'' ! n"

text \<open>\<open>%X\<close>: upper-case hexadecimal, no leading zeros.\<close>

function sprintf_X :: "nat \<Rightarrow> string" where
  "sprintf_X n = (if n < 16 then [hexdigit n] else sprintf_X (n div 16) @ [hexdigit (n mod 16)])"
  by pat_completeness auto
termination
  by (relation "measure id") auto

declare sprintf_X.simps [simp del]

text \<open>\<open>%d\<close> of an unsigned value.\<close>

function sprintf_d :: "nat \<Rightarrow> string" where
  "sprintf_d n = (if n < 10 then [decdigit n] else sprintf_d (n div 10) @ [decdigit (n mod 10)])"
  by pat_completeness auto
termination
  by (relation "measure id") auto

declare sprintf_d.simps [simp del]

text \<open>\<open>%02X\<close>: at least two digits, padded with zeros on the left.\<close>

definition sprintf_02X :: "nat \<Rightarrow> string" where
  "sprintf_02X n = (let s = sprintf_X n in replicate (2 - length s) (CHR ''0'') @ s)"

text \<open>\<open>%-*d\<close> with width \<open>w\<close>: left-justified, padded with spaces on the right.\<close>

definition sprintf_left_d :: "nat \<Rightarrow> nat \<Rightarrow> string" where
  "sprintf_left_d w n = (let s = sprintf_d n in s @ replicate (w - length s) (CHR '' ''))"

text \<open>
  Modelled from the spec: \<open>UpperCaseHexString\<close> is not in the sources. The spec has the
  fingerprint and the ID "formatted as uppercase hex with no separators", and the
  source's comment renders each byte as \<open>{x:02X}\<close>.
\<close>

definition UpperCaseHexString :: "byte list \<Rightarrow> string" where
  "UpperCaseHexString bs = concat (map (\<lambda>b. sprintf_02X (unat b)) bs)"

text \<open>
  \<open>binary.BigEndian.Uint16\<close> and \<open>Uint32\<close>: they read the first two (four) bytes and
  panic on a shorter slice.
\<close>

definition BigEndian_Uint16 :: "byte list \<Rightarrow> error + uint16" where
  "BigEndian_Uint16 b =
     (if length b < 2 then Inl RuntimePanic
      else Inr (ucast (b ! 1) OR push_bit 8 (ucast (b ! 0))))"

definition BigEndian_Uint32 :: "byte list \<Rightarrow> error + uint32" where
  "BigEndian_Uint32 b =
     (if length b < 4 then Inl RuntimePanic
      else Inr (ucast (b ! 3) OR push_bit 8 (ucast (b ! 2))
                OR push_bit 16 (ucast (b ! 1)) OR push_bit 24 (ucast (b ! 0))))"

text \<open>\<open>string(name)\<close> of a byte slice, and the bytes of a string.\<close>

definition string_of_bytes :: "byte list \<Rightarrow> string" where
  "string_of_bytes bs = map (\<lambda>b. char_of (unat b)) bs"

definition bytes_of_string :: "string \<Rightarrow> byte list" where
  "bytes_of_string s = map (\<lambda>c. of_nat (of_char c)) s"

section \<open>Tags\<close>

text \<open>
  Modelled from the spec: the tag paths, the two field widths and the capability masks
  are constants declared outside the sources. The paths and widths are the ones of the
  comments above each accessor (\<open>6E.73.C{n+1}\<close>, \<open>6E.73.C5\<close> with \<open>n*20\<close>,
  \<open>6E.73.CD\<close> with \<open>n*4\<close>, \<open>6E.73.DE\<close>, \<open>6E.73.C0\<close>); the masks follow the spec's
  "each bit, most-significant bit first: secure messaging, get-challenge, key import,
  PIN-status-changeable, private-use data objects, algorithm-attributes-changeable,
  AES-based PSO decryption/encryption, KDF support". The masks that share their name
  with a field of the record carry the suffix \<open>_bit\<close>.
\<close>

definition keyAlgorithmSignatureAttributesTag :: string where
  "keyAlgorithmSignatureAttributesTag = ''6E.73.C1''"

definition keyAlgorithmDecryptionAttributesTag :: string where
  "keyAlgorithmDecryptionAttributesTag = ''6E.73.C2''"

definition keyAlgorithmAuthenticationAttributesTag :: string where
  "keyAlgorithmAuthenticationAttributesTag = ''6E.73.C3''"

definition keyInformationTag :: string where
  "keyInformationTag = ''6E.73.C5''"

definition keyDateTag :: string where
  "keyDateTag = ''6E.73.CD''"

definition keyOriginAttributesTag :: string where
  "keyOriginAttributesTag = ''6E.73.DE''"

definition extendedCapabilitiesTag :: string where
  "extendedCapabilitiesTag = ''6E.73.C0''"

definition keyFingerprintLen :: int where
  "keyFingerprintLen = 20"

definition keyDateLen :: int where
  "keyDateLen = 4"

definition SecureMessaging_bit :: byte where "SecureMessaging_bit = 0x80"
definition GetChallenge :: byte where "GetChallenge = 0x40"
definition KeyImport :: byte where "KeyImport = 0x20"
definition PWStatusChangeable_bit :: byte where "PWStatusChangeable_bit = 0x10"
definition PrivateUseDOs :: byte where "PrivateUseDOs = 0x08"
definition AlgorithmAttributesChangeable_bit :: byte where "AlgorithmAttributesChangeable_bit = 0x04"
definition PSODECENCwithAES :: byte where "PSODECENCwithAES = 0x02"
definition KDFSupported_bit :: byte where "KDFSupported_bit = 0x01"

text \<open>
  Modelled from the spec: \<open>NoSecureMessaging\<close> is declared outside the sources; it is
  the default (zero) value of the secure-messaging algorithm field.
\<close>

definition NoSecureMessaging :: SecureMessagingAlgorithm where
  "NoSecureMessaging = 0"

text \<open>
  Modelled from the spec: \<open>Offset\<close> of a key type is not in the sources. The spec has
  \<open>Origin\<close> "read one byte at the keyType's ordinal offset".
\<close>

definition Offset :: "KeyType \<Rightarrow> int" where
  "Offset keyType = ordinal keyType"

text \<open>
  Modelled from the spec: \<open>GetTag\<close> is not in the sources. Its callers pass a tag path and
  the least length they go on to read ("make sure aid is long enough", "We expect between 1
  and 4 bytes" with 1); the spec has \<open>NoSuchTag\<close> for a "requested tag path missing from
  the flattened mapping", which \<open>loadExtendedData\<close> tells apart from every other failure,
  and \<open>TooShort\<close> for a field that is "present but shorter than required".
\<close>

definition GetTag :: "GpgData \<Rightarrow> string \<Rightarrow> int \<Rightarrow> error + byte list" where
  "GetTag g key minLen =
     (case tlvValues g key of
        None \<Rightarrow> Inl ErrNoSuchTag
      | Some data \<Rightarrow> if int (length data) < minLen then Inl ErrTooShort else Inr data)"

definition HasTag :: "GpgData \<Rightarrow> string \<Rightarrow> int \<times> bool" where
  "HasTag g key =
     (case tlvValues g key of
        None \<Rightarrow> (0, False)
      | Some aid \<Rightarrow> (int (length aid), True))"

definition getKeyLen :: "KeyType \<Rightarrow> int \<Rightarrow> int \<times> int" where
  "getKeyLen keyType len =
     (let index = ordinal keyType;
          offset = index * len;
          expectedLen = offset + len
      in (offset, expectedLen))"

section \<open>Per-key accessors\<close>

text \<open>
  A method with receiver \<open>g *GpgData\<close> takes \<open>None\<close> for the nil receiver. A result is
  \<open>Inl\<close> of the failure or \<open>Inr\<close> of the value; the value Go returns beside a non-nil
  error (the empty string, the zero time, \<open>KeyNotPresent\<close>) is not modelled.
\<close>

definition Algorithm :: "GpgData option \<Rightarrow> KeyType \<Rightarrow> error + string" where
  "Algorithm g keyType =
     (case g of
        None \<Rightarrow> Inl ErrKeyNotPresent
      | Some gd \<Rightarrow>
          (case (case keyType of
                   SignatureKey \<Rightarrow> Some keyAlgorithmSignatureAttributesTag
                 | DecryptionKey \<Rightarrow> Some keyAlgorithmDecryptionAttributesTag
                 | AuthenticationKey \<Rightarrow> Some keyAlgorithmAuthenticationAttributesTag
                 | AttestKey \<Rightarrow> None) of
             None \<Rightarrow> Inl ErrNoSuchTag
           | Some key \<Rightarrow>
               bind_res (GetTag gd key 1) (\<lambda>data.
               bind_res (go_index data 0) (\<lambda>data0.
                 if data0 > 0 \<and> data0 > 3 then
                   if length data < 3 then Inl ErrNoSuchAlgorithm
                   else
                     bind_res (go_index data 1) (\<lambda>data1.
                     bind_res (go_index data 2) (\<lambda>data2.
                       let algorithmNum = (ucast data1 :: uint16) * 256 + ucast data2
                       in Inr (''RSA '' @ sprintf_d (unat algorithmNum))))
                 else Inr (''Alg='' @ sprintf_left_d 4 (unat data0))))))"

definition Fingerprint :: "GpgData option \<Rightarrow> KeyType \<Rightarrow> error + string" where
  "Fingerprint g keyType =
     (case g of
        None \<Rightarrow> Inl ErrKeyNotPresent
      | Some gd \<Rightarrow>
          (case getKeyLen keyType keyFingerprintLen of
             (offset, expectedLen) \<Rightarrow>
               bind_res (GetTag gd keyInformationTag expectedLen) (\<lambda>data.
               bind_res (go_slice data offset expectedLen) (\<lambda>fp.
                 Inr (UpperCaseHexString fp)))))"

definition GetCardHolder :: "GpgData option \<Rightarrow> string" where
  "GetCardHolder g = (case g of None \<Rightarrow> [] | Some gd \<Rightarrow> CardHolder gd)"

definition GetVersion :: "GpgData option \<Rightarrow> string" where
  "GetVersion g = (case g of None \<Rightarrow> [] | Some gd \<Rightarrow> Version gd)"

definition GetAppletVersion :: "GpgData option \<Rightarrow> string" where
  "GetAppletVersion g = (case g of None \<Rightarrow> [] | Some gd \<Rightarrow> AppletVersion gd)"

definition ID :: "GpgData option \<Rightarrow> KeyType \<Rightarrow> error + string" where
  "ID g keyType =
     (case g of
        None \<Rightarrow> Inl ErrKeyNotPresent
      | Some gd \<Rightarrow>
          (case getKeyLen keyType keyFingerprintLen of
             (_, expectedLen) \<Rightarrow>
               bind_res (GetTag gd keyInformationTag expectedLen) (\<lambda>data.
                 let start = expectedLen - 8
                 in bind_res (go_slice data start expectedLen) (\<lambda>tail8.
                      Inr (UpperCaseHexString tail8)))))"

text \<open>\<open>Date\<close> returns \<open>time.Unix(int64(dateInt), 0)\<close>; a time is its seconds since the epoch.\<close>

definition Date :: "GpgData option \<Rightarrow> KeyType \<Rightarrow> error + nat" where
  "Date g keyType =
     (case g of
        None \<Rightarrow> Inl ErrKeyNotPresent
      | Some gd \<Rightarrow>
          (case getKeyLen keyType keyDateLen of
             (offset, expectedLen) \<Rightarrow>
               bind_res (GetTag gd keyDateTag expectedLen) (\<lambda>data.
               bind_res (go_slice data offset expectedLen) (\<lambda>dateData.
               bind_res (go_slice dateData 0 4) (\<lambda>first4.
               bind_res (BigEndian_Uint32 first4) (\<lambda>dateInt.
                 Inr (unat dateInt)))))))"

text \<open>
  \<open>KeyTypeSize\<close> and \<open>KeyOriginLast\<close> are constants declared outside the sources:
  \<open>Origin\<close> takes them as parameters (\<open>KeyOriginLast\<close> as the value of
  \<open>uint(KeyOriginLast)\<close>). A \<open>KeyOrigin\<close> is the number \<open>KeyOrigin(keyValue)\<close>.
\<close>

definition Origin :: "int \<Rightarrow> nat \<Rightarrow> GpgData option \<Rightarrow> KeyType \<Rightarrow> error + KeyOrigin" where
  "Origin KeyTypeSize KeyOriginLast g keyType =
     (case g of
        None \<Rightarrow> Inl ErrKeyNotPresent
      | Some gd \<Rightarrow>
          (case HasTag gd keyOriginAttributesTag of
             (tagLen, hasDate) \<Rightarrow>
               if tagLen = 0 \<or> \<not> hasDate then Inl ErrKeyNotPresent
               else
                 bind_res (GetTag gd keyOriginAttributesTag KeyTypeSize) (\<lambda>data.
                 bind_res (go_index data (Offset keyType)) (\<lambda>b.
                   let keyValue = unat b
                   in if keyValue > KeyOriginLast then Inl ErrUnknownKeyOrigin
                      else Inr keyValue))))"

text \<open>
  \<open>String\<close> executes the constant template \<open>infoTemplate\<close> on the record: parsing it
  and writing the seven string fields into a \<open>strings.Builder\<close> do not fail.
\<close>

definition infoTemplate :: "GpgData \<Rightarrow> string" where
  "infoTemplate gd =
     [CHR 0x0A] @ ''  Card:            '' @ LongName gd @
     [CHR 0x0A] @ ''  RID:             '' @ Rid gd @
     [CHR 0x0A] @ ''  Application:     '' @ Application gd @
     [CHR 0x0A] @ ''  Version:         '' @ Version gd @
     [CHR 0x0A] @ ''  Manufacturer:    '' @ Manufacturer gd @
     [CHR 0x0A] @ ''  Serial Number:   '' @ Serial gd @
     [CHR 0x0A] @ ''  Cardholder Name: '' @ CardHolder gd @
     [CHR 0x0A]"

definition String :: "GpgData option \<Rightarrow> error + string" where
  "String g =
     (case g of
        None \<Rightarrow> Inl ErrKeyNotPresent
      | Some gd \<Rightarrow> Inr (infoTemplate gd))"

section \<open>The extended-capabilities decoder\<close>

text \<open>
  The setters change the record in place; the model returns the changed record. When a
  setter or the decoder fails, the model returns the failure alone.
  \<open>SecureMessagingAlgorithmLast\<close> is a constant declared outside the sources: the
  decoder takes \<open>byte(SecureMessagingAlgorithmLast)\<close> as a parameter.
\<close>

definition setSecureMessaging ::
    "byte \<Rightarrow> GpgData option \<Rightarrow> byte \<Rightarrow> byte \<Rightarrow> error + GpgData" where
  "setSecureMessaging SecureMessagingAlgorithmLast g capabilitiesByte smByte =
     (case g of
        None \<Rightarrow> Inl ErrKeyNotPresent
      | Some gd \<Rightarrow>
          if capabilitiesByte AND SecureMessaging_bit \<noteq> SecureMessaging_bit then Inr gd
          else if smByte > SecureMessagingAlgorithmLast then Inl ErrNoSuchAlgorithm
          else Inr (gd\<lparr>SecureMessagingSupported := True, SecureMessaging := smByte\<rparr>))"

definition setGetChallengeSupported ::
    "GpgData option \<Rightarrow> byte \<Rightarrow> byte list \<Rightarrow> error + GpgData" where
  "setGetChallengeSupported g capabilitiesByte challenge =
     (case g of
        None \<Rightarrow> Inl ErrKeyNotPresent
      | Some gd \<Rightarrow>
          if capabilitiesByte AND GetChallenge \<noteq> GetChallenge then Inr gd
          else if length challenge \<noteq> 2 then Inl ErrTooShort
          else bind_res (BigEndian_Uint16 challenge) (\<lambda>v.
                 Inr (gd\<lparr>GetChallengeSupported := True, MaximumChallengeLength := v\<rparr>)))"

definition isSupported :: "byte \<Rightarrow> byte \<Rightarrow> bool" where
  "isSupported capabilitiesByte flagValue \<longleftrightarrow> capabilitiesByte AND flagValue = flagValue"

definition loadExtendedData :: "byte \<Rightarrow> GpgData option \<Rightarrow> error + GpgData" where
  "loadExtendedData SecureMessagingAlgorithmLast g =
     (case g of
        None \<Rightarrow> Inl ErrKeyNotPresent
      | Some gd \<Rightarrow>
          let g0 = gd\<lparr>SecureMessaging := NoSecureMessaging,
                      MaximumChallengeLength := 0,
                      MaximumCardholderCertificatesLength := 0,
                      MaximumSpecialDOsLength := 0,
                      PinBlock2Supported := False,
                      MSECommandSupported := False\<rparr>
          in
          (case GetTag g0 extendedCapabilitiesTag 10 of
             Inl err \<Rightarrow> if err = ErrNoSuchTag then Inr g0 else Inl err
           | Inr tag \<Rightarrow>
               bind_res (getByteWith1BasedIndexing (Some tag) 1) (\<lambda>capabilitiesByte.
               bind_res (getByteWith1BasedIndexing (Some tag) 2) (\<lambda>mByte.
               bind_res (setSecureMessaging SecureMessagingAlgorithmLast (Some g0)
                           capabilitiesByte mByte) (\<lambda>g1.
               bind_res (getBytesWith1BasedIndexing (Some tag) 3 4) (\<lambda>bs34.
               bind_res (setGetChallengeSupported (Some g1) capabilitiesByte bs34) (\<lambda>g2.
               let g3 = g2\<lparr>KeyImportSupported := isSupported capabilitiesByte KeyImport,
                           PWStatusChangeable :=
                             isSupported capabilitiesByte PWStatusChangeable_bit,
                           PrivateUseDOsSupported := isSupported capabilitiesByte PrivateUseDOs,
                           AlgorithmAttributesChangeable :=
                             isSupported capabilitiesByte AlgorithmAttributesChangeable_bit,
                           SupportsPSODecryptionEncryptionWithAES :=
                             isSupported capabilitiesByte PSODECENCwithAES,
                           KDFSupported := isSupported capabilitiesByte KDFSupported_bit\<rparr>
               in
               bind_res (getBytesWith1BasedIndexing (Some tag) 5 6) (\<lambda>bs56.
               bind_res (BigEndian_Uint16 bs56) (\<lambda>v56.
               bind_res (getBytesWith1BasedIndexing (Some tag) 7 8) (\<lambda>bs78.
               bind_res (BigEndian_Uint16 bs78) (\<lambda>v78.
               bind_res (getByteWith1BasedIndexing (Some tag) 9) (\<lambda>b9.
               bind_res (getByteWith1BasedIndexing (Some tag) 10) (\<lambda>b10.
                 Inr (g3\<lparr>MaximumCardholderCertificatesLength := v56,
                         MaximumSpecialDOsLength := v78,
                         PinBlock2Supported := isSupported b9 0x01,
                         MSECommandSupported := isSupported b10 0x01\<rparr>))))))))))))))"

section \<open>The name normalizer\<close>

text \<open>
  \<open>strings.Index(s, substr)\<close>: the index of the first occurrence of \<open>substr\<close> in
  \<open>s\<close>, or \<open>-1\<close>.
\<close>

fun strings_Index :: "string \<Rightarrow> string \<Rightarrow> int" where
  "strings_Index [] substr = (if substr = [] then 0 else - 1)"
| "strings_Index (c # cs) substr =
     (if take (length substr) (c # cs) = substr then 0
      else (let r = strings_Index cs substr in if r < 0 then - 1 else r + 1))"

text \<open>\<open>strings.ReplaceAll(s, old, new)\<close> for \<open>old\<close> and \<open>new\<close> of one byte each.\<close>

definition strings_ReplaceAll :: "string \<Rightarrow> char \<Rightarrow> char \<Rightarrow> string" where
  "strings_ReplaceAll s old new = map (\<lambda>c. if c = old then new else c) s"

definition NameNotSet :: string where
  "NameNotSet = ''[not set]''"

definition suffix :: string where
  "suffix = ''<<''"

definition suffixLen :: int where
  "suffixLen = int (length suffix)"

text \<open>
  The two string slices \<open>nameString[i+suffixLen:]\<close> and \<open>nameString[:i]\<close> are in
  range whenever they are evaluated (lemma \<open>strings_Index_range\<close> below), so the model
  writes them with \<open>drop\<close> and \<open>take\<close>.
\<close>

definition ParseCardHolderName :: "byte list \<Rightarrow> string" where
  "ParseCardHolderName name =
     (if length name = 0 then NameNotSet
      else
        let nameString = string_of_bytes name;
            nameStringLen = int (length nameString)
        in if nameStringLen = 0 then NameNotSet
           else
             let i = strings_Index nameString ''<<''
             in if i \<ge> 0
                then drop (nat (i + suffixLen)) nameString
                     @ (if i + suffixLen < nameStringLen then [CHR 0x0A] else [])
                     @ strings_ReplaceAll (take (nat i) nameString) (CHR ''<'') (CHR '' '')
                else strings_ReplaceAll (take (length nameString) nameString)
                       (CHR ''<'') (CHR '' ''))"

section \<open>Construction of the record\<close>

text \<open>
  \<open>update\<close> is a method without a nil check; it is modelled on a record that exists.
  The value \<open>GetTag\<close> returns beside an error is the nil slice, which is what
  \<open>ParseCardHolderName\<close> receives when the cardholder tag is missing.
\<close>

definition update :: "byte \<Rightarrow> GpgData \<Rightarrow> error + GpgData" where
  "update SecureMessagingAlgorithmLast g =
     bind_res (GetTag g ''6E.4F'' 13) (\<lambda>aid.
     bind_res (go_index aid 10) (\<lambda>aid10.
     bind_res (go_index aid 11) (\<lambda>aid11.
     bind_res (go_index aid 12) (\<lambda>aid12.
     bind_res (go_index aid 13) (\<lambda>aid13.
     let g1 = g\<lparr>Serial := sprintf_X (unat aid10) @ sprintf_02X (unat aid11)
                            @ sprintf_02X (unat aid12) @ sprintf_02X (unat aid13)\<rparr>
     in
     bind_res (go_slice aid 10 14) (\<lambda>aid10_14.
     bind_res (BigEndian_Uint32 aid10_14) (\<lambda>serialInt.
     let g2 = g1\<lparr>SerialInt := serialInt\<rparr>
     in
     bind_res (go_index aid 6) (\<lambda>aid6.
     bind_res (go_index aid 7) (\<lambda>aid7.
     let g3 = g2\<lparr>LongName := Reader g2 @ '' SN '' @ Serial g2 @ '' OpenPGP ''
                               @ sprintf_X (unat aid6) @ ''.'' @ sprintf_X (unat aid7)\<rparr>;
         cardHolderBytes = (case GetTag g3 ''65.5B'' 0 of Inl _ \<Rightarrow> [] | Inr bs \<Rightarrow> bs);
         g4 = g3\<lparr>CardHolder := ParseCardHolderName cardHolderBytes\<rparr>
     in
     bind_res (go_slice aid 0 5) (\<lambda>aid0_5.
     let g5 = g4\<lparr>Rid := UpperCaseHexString aid0_5\<rparr>
     in
     bind_res (go_index aid 5) (\<lambda>aid5.
     let app = (if aid5 = 1 then '' (OpenPGP)'' else [])
     in
     bind_res (go_slice aid 5 6) (\<lambda>aid5_6.
     let g6 = g5\<lparr>Application := UpperCaseHexString aid5_6 @ app\<rparr>;
         g7 = g6\<lparr>Version := sprintf_X (unat aid6) @ ''.'' @ sprintf_X (unat aid7)\<rparr>
     in
     bind_res (go_index aid 8) (\<lambda>aid8.
     bind_res (go_index aid 9) (\<lambda>aid9.
     let mfg = (if aid8 = 0 \<and> aid9 = 6 then '' (YubiCo)'' else []);
         g8 = g7\<lparr>Manufacturer := sprintf_02X (unat aid8) @ sprintf_02X (unat aid9) @ mfg\<rparr>
     in loadExtendedData SecureMessagingAlgorithmLast (Some g8)))))))))))))))"

section \<open>Notions of the specification\<close>

text \<open>
  The defaults of the capability set: every boolean false, the secure-messaging
  algorithm \<open>NoSecureMessaging\<close>, the three maximum lengths zero.
\<close>

definition capabilities_default :: "GpgData \<Rightarrow> bool" where
  "capabilities_default g \<longleftrightarrow>
     \<not> SecureMessagingSupported g \<and> SecureMessaging g = NoSecureMessaging
     \<and> \<not> GetChallengeSupported g \<and> MaximumChallengeLength g = 0
     \<and> \<not> KeyImportSupported g \<and> \<not> PWStatusChangeable g
     \<and> \<not> PrivateUseDOsSupported g \<and> \<not> AlgorithmAttributesChangeable g
     \<and> \<not> SupportsPSODecryptionEncryptionWithAES g \<and> \<not> KDFSupported g
     \<and> \<not> PinBlock2Supported g \<and> \<not> MSECommandSupported g
     \<and> MaximumCardholderCertificatesLength g = 0 \<and> MaximumSpecialDOsLength g = 0"

text \<open>The marker \<open><<\<close> occurs in \<open>s\<close> at the 0-based position \<open>p\<close>.\<close>

definition marker_at :: "string \<Rightarrow> nat \<Rightarrow> bool" where
  "marker_at s p \<longleftrightarrow> take 2 (drop p s) = ''<<''"

text \<open>
  \<open>Algorithm\<close> in the words of the spec, on the value \<open>data\<close> of the key's
  algorithm-attributes tag: when the first byte is "> 0 and also > 3", \<open>RSA <bits>\<close> with
  the big-endian 16-bit value of the next two bytes, a \<open>NoSuchAlgorithm\<close> failure when
  fewer than three bytes are present; otherwise the generic \<open>Alg=<code>\<close>, the code
  left-justified to width 4.
\<close>

definition Algorithm_spec :: "byte list \<Rightarrow> error + string" where
  "Algorithm_spec data =
     (if unat (data ! 0) > 0 \<and> unat (data ! 0) > 3 then
        (if length data < 3 then Inl ErrNoSuchAlgorithm
         else Inr (''RSA '' @ sprintf_d (unat (data ! 1) * 256 + unat (data ! 2))))
      else Inr (''Alg='' @ sprintf_left_d 4 (unat (data ! 0))))"

text \<open>A record as Go allocates it (every field zero), with a reader name and a tag map.\<close>

definition new_GpgData :: "string \<Rightarrow> (string \<rightharpoonup> byte list) \<Rightarrow> GpgData" where
  "new_GpgData reader tlv =
     \<lparr>Reader = reader, Serial = [], SerialInt = 0, LongName = [], CardHolder = [],
      Rid = [], Application = [], Version = [], Manufacturer = [], AppletVersion = [],
      SecureMessagingSupported = False, SecureMessaging = 0,
      GetChallengeSupported = False, MaximumChallengeLength = 0,
      KeyImportSupported = False, PWStatusChangeable = False,
      PrivateUseDOsSupported = False, AlgorithmAttributesChangeable = False,
      SupportsPSODecryptionEncryptionWithAES = False, KDFSupported = False,
      PinBlock2Supported = False, MSECommandSupported = False,
      MaximumCardholderCertificatesLength = 0, MaximumSpecialDOsLength = 0,
      tlvValues = tlv, debug = False\<rparr>"

section \<open>Properties of the 1-based byte accessors\<close>

text \<open>
  C8, for blocks of at least one byte. On a block \<open>bs\<close> of \<open>N\<close> bytes: byte 1 is
  read when \<open>N \<ge> 1\<close>; byte \<open>N + 1\<close> fails with \<open>ErrNotFound\<close>; the range \<open>(N, N)\<close>
  is read when \<open>N \<ge> 1\<close> (it is the last byte); the range \<open>(1, N + 1)\<close> fails with
  \<open>ErrNotFound\<close>; on a nil source both accessors fail with \<open>ErrNotFound\<close>.
\<close>

theorem accessor_boundary:
  "(1 \<le> length bs \<longrightarrow> getByteWith1BasedIndexing (Some bs) 1 = Inr (bs ! 0))
   \<and> getByteWith1BasedIndexing (Some bs) (int (length bs) + 1) = Inl ErrNotFound
   \<and> (1 \<le> length bs \<longrightarrow>
        getBytesWith1BasedIndexing (Some bs) (int (length bs)) (int (length bs)) = Inr [last bs])
   \<and> getBytesWith1BasedIndexing (Some bs) 1 (int (length bs) + 1) = Inl ErrNotFound
   \<and> getByteWith1BasedIndexing None i = Inl ErrNotFound
   \<and> getBytesWith1BasedIndexing None s e = Inl ErrNotFound"
proof -
  have last_slice: "drop (length bs - Suc 0) bs = [last bs]" if "bs \<noteq> []"
  proof -
    from that obtain xs x where "bs = xs @ [x]" by (metis rev_exhaust)
    then show ?thesis by simp
  qed
  show ?thesis
    by (auto simp: getByteWith1BasedIndexing_def getBytesWith1BasedIndexing_def
        go_index_def go_slice_def nat_diff_distrib last_slice)
qed

theorem accessor_boundary_witness:
  "getByteWith1BasedIndexing (Some [7, 8, 9]) 1 = Inr 7
   \<and> getBytesWith1BasedIndexing (Some [7, 8, 9]) 3 3 = Inr [9]"
  using accessor_boundary [of "[7, 8, 9]"] by simp

text \<open>
  On a block of no bytes the range \<open>(N, N)\<close> is \<open>(0, 0)\<close>: the empty slice takes the
  accessor to the slice expression \<open>b[-1:0]\<close>, and the nil slice to \<open>ErrNotFound\<close>.
\<close>

theorem range_on_empty_block_counterexample:
  "getBytesWith1BasedIndexing (Some []) (int (length ([] :: byte list))) (int (length ([] :: byte list)))
     = Inl RuntimePanic
   \<and> getBytesWith1BasedIndexing None 0 0 = Inl ErrNotFound"
  by (simp add: getBytesWith1BasedIndexing_def go_slice_def)

text \<open>
  C10. The accessors check the upper bound and the nil source only:
  \<open>getByteWith1BasedIndexing\<close> returns \<open>ErrNotFound\<close> exactly when the source is nil
  or the index exceeds the length, \<open>getBytesWith1BasedIndexing\<close> exactly when the
  source is nil or start or end exceeds the length. Past these checks, a call with
  \<open>index \<ge> 1\<close> (with \<open>start \<ge> 1\<close> and \<open>start \<le> end + 1\<close>) returns the byte (the
  bytes), and a call with \<open>index < 1\<close> (with \<open>start < 1\<close> or \<open>start > end + 1\<close>) reaches
  a position outside the block: a runtime panic, not \<open>ErrNotFound\<close>.
\<close>

theorem accessors_upper_bound_only:
  "(getByteWith1BasedIndexing b i = Inl ErrNotFound \<longleftrightarrow> (b = None \<or> i > go_len b))
   \<and> (getBytesWith1BasedIndexing b s e = Inl ErrNotFound
        \<longleftrightarrow> (b = None \<or> s > go_len b \<or> e > go_len b))
   \<and> (b = Some bs \<and> i \<le> go_len b \<longrightarrow>
        (1 \<le> i \<longrightarrow> getByteWith1BasedIndexing b i = Inr (bs ! nat (i - 1)))
        \<and> (i < 1 \<longrightarrow> getByteWith1BasedIndexing b i = Inl RuntimePanic))
   \<and> (b = Some bs \<and> s \<le> go_len b \<and> e \<le> go_len b \<longrightarrow>
        (1 \<le> s \<and> s \<le> e + 1 \<longrightarrow>
           getBytesWith1BasedIndexing b s e
             = Inr (take (nat e - nat (s - 1)) (drop (nat (s - 1)) bs)))
        \<and> (s < 1 \<or> s > e + 1 \<longrightarrow> getBytesWith1BasedIndexing b s e = Inl RuntimePanic))"
  by (auto simp: getByteWith1BasedIndexing_def getBytesWith1BasedIndexing_def go_len_def
      go_index_def go_slice_def split: option.splits)

theorem accessors_upper_bound_only_witness:
  "getByteWith1BasedIndexing (Some [7, 8, 9]) 4 = Inl ErrNotFound
   \<and> getByteWith1BasedIndexing (Some [7, 8, 9]) 2 = Inr 8
   \<and> getByteWith1BasedIndexing (Some [7, 8, 9]) 0 = Inl RuntimePanic
   \<and> getBytesWith1BasedIndexing (Some [7, 8, 9]) 2 3 = Inr [8, 9]
   \<and> getBytesWith1BasedIndexing (Some [7, 8, 9]) 0 2 = Inl RuntimePanic
   \<and> getBytesWith1BasedIndexing (Some [7, 8, 9]) 3 1 = Inl RuntimePanic"
  using accessors_upper_bound_only [of "Some [7, 8, 9]" 4 0 0 "[7, 8, 9]"]
    accessors_upper_bound_only [of "Some [7, 8, 9]" 2 2 3 "[7, 8, 9]"]
    accessors_upper_bound_only [of "Some [7, 8, 9]" 0 0 2 "[7, 8, 9]"]
    accessors_upper_bound_only [of "Some [7, 8, 9]" 0 3 1 "[7, 8, 9]"]
  by (simp add: go_len_def)

section \<open>Properties of the per-key accessors\<close>

text \<open>
  C9. On a nil record, \<open>Algorithm\<close>, \<open>Fingerprint\<close>, \<open>ID\<close>, \<open>Date\<close>, \<open>Origin\<close> and
  \<open>String\<close> return the failure \<open>ErrKeyNotPresent\<close>, and the getters
  \<open>GetCardHolder\<close>, \<open>GetVersion\<close> and \<open>GetAppletVersion\<close> return the empty string.
\<close>

theorem nil_record_accessors:
  "Algorithm None keyType = Inl ErrKeyNotPresent
   \<and> Fingerprint None keyType = Inl ErrKeyNotPresent
   \<and> ID None keyType = Inl ErrKeyNotPresent
   \<and> Date None keyType = Inl ErrKeyNotPresent
   \<and> Origin KeyTypeSize KeyOriginLast None keyType = Inl ErrKeyNotPresent
   \<and> String None = Inl ErrKeyNotPresent
   \<and> GetCardHolder None = []
   \<and> GetVersion None = []
   \<and> GetAppletVersion None = []"
  by (simp add: Algorithm_def Fingerprint_def ID_def Date_def Origin_def String_def
      GetCardHolder_def GetVersion_def GetAppletVersion_def)

subsection \<open>Algorithm\<close>

text \<open>\<open>uint16(data[1])*256 + uint16(data[2])\<close> does not overflow.\<close>

lemma unat_uint16_of_bytes:
  "unat ((ucast (a :: byte) :: uint16) * 256 + ucast (b :: byte)) = unat a * 256 + unat b"
proof -
  have a: "unat a < 256" and b: "unat b < 256"
    using unsigned_less [of a, where ?'a = nat] unsigned_less [of b, where ?'a = nat]
    by simp_all
  have ua: "unat (ucast a :: uint16) = unat a" and ub: "unat (ucast b :: uint16) = unat b"
    by (simp_all add: unsigned_ucast_eq take_bit_nat_eq_self_iff
        order_less_trans [OF unsigned_less])
  have "unat ((ucast a :: uint16) * 256 + ucast b) = (unat a * 256 + unat b) mod 65536"
    by (simp add: unat_word_ariths ua ub mod_simps)
  also have "\<dots> = unat a * 256 + unat b"
    using a b by simp
  finally show ?thesis .
qed

lemma Algorithm_on_tag:
  assumes "(case keyType of
              SignatureKey \<Rightarrow> Some keyAlgorithmSignatureAttributesTag
            | DecryptionKey \<Rightarrow> Some keyAlgorithmDecryptionAttributesTag
            | AuthenticationKey \<Rightarrow> Some keyAlgorithmAuthenticationAttributesTag
            | AttestKey \<Rightarrow> None) = Some key"
    and "tlvValues g key = Some data" and "data \<noteq> []"
  shows "Algorithm (Some g) keyType = Algorithm_spec data"
proof -
  have tag: "GetTag g key 1 = Inr data"
    using assms(2,3) by (cases data) (simp_all add: GetTag_def)
  have i0: "go_index data 0 = Inr (data ! 0)"
    using assms(3) by (simp add: go_index_def)
  have gt: "(0 < data ! 0 \<and> 3 < data ! 0) = (0 < unat (data ! 0) \<and> 3 < unat (data ! 0))"
    by (simp add: word_less_nat_alt)
  have rest: "go_index data 1 = Inr (data ! 1)" "go_index data 2 = Inr (data ! 2)"
    if "\<not> length data < 3"
    using that by (simp_all add: go_index_def)
  show ?thesis
    using assms(1) rest
    by (simp add: Algorithm_def Algorithm_spec_def bind_res_def tag i0 gt
        unat_uint16_of_bytes Let_def del: word_greater_zero_iff)
qed

text \<open>
  C1. For the signature, decryption and authentication keys and a present
  algorithm-attributes tag of at least one byte, \<open>Algorithm\<close> is \<open>Algorithm_spec\<close>:
  a first byte of 3 or less (the documented RSA codes 1 to 3 among them) gives the
  generic \<open>Alg=<code>\<close>, left-justified to width 4; a first byte above 3 gives
  \<open>RSA <n>\<close>, \<open>n\<close> the big-endian value of bytes two and three, when three bytes are
  present, and the failure \<open>ErrNoSuchAlgorithm\<close> when fewer are.
\<close>

theorem Algorithm_formats:
  assumes "data \<noteq> []"
  shows "(tlvValues g keyAlgorithmSignatureAttributesTag = Some data \<longrightarrow>
            Algorithm (Some g) SignatureKey = Algorithm_spec data)
       \<and> (tlvValues g keyAlgorithmDecryptionAttributesTag = Some data \<longrightarrow>
            Algorithm (Some g) DecryptionKey = Algorithm_spec data)
       \<and> (tlvValues g keyAlgorithmAuthenticationAttributesTag = Some data \<longrightarrow>
            Algorithm (Some g) AuthenticationKey = Algorithm_spec data)
       \<and> (unat (data ! 0) \<le> 3 \<longrightarrow>
            Algorithm_spec data = Inr (''Alg='' @ sprintf_left_d 4 (unat (data ! 0))))
       \<and> (unat (data ! 0) > 3 \<and> length data \<ge> 3 \<longrightarrow>
            Algorithm_spec data
              = Inr (''RSA '' @ sprintf_d (unat (data ! 1) * 256 + unat (data ! 2))))
       \<and> (unat (data ! 0) > 3 \<and> length data < 3 \<longrightarrow>
            Algorithm_spec data = Inl ErrNoSuchAlgorithm)"
  using assms by (auto simp: Algorithm_on_tag Algorithm_spec_def)

theorem Algorithm_formats_witness:
  "Algorithm (Some (new_GpgData ''r'' [keyAlgorithmSignatureAttributesTag \<mapsto> [1, 8, 0]]))
     SignatureKey = Inr ''Alg=1   ''
   \<and> Algorithm (Some (new_GpgData ''r'' [keyAlgorithmDecryptionAttributesTag \<mapsto> [4, 8, 0]]))
       DecryptionKey = Inr ''RSA 2048''
   \<and> Algorithm (Some (new_GpgData ''r'' [keyAlgorithmAuthenticationAttributesTag \<mapsto> [5, 8]]))
       AuthenticationKey = Inl ErrNoSuchAlgorithm"
proof -
  have "Algorithm_spec [1, 8, 0] = Inr ''Alg=1   ''"
    and "Algorithm_spec [4, 8, 0] = Inr ''RSA 2048''"
    and "Algorithm_spec [5, 8] = Inl ErrNoSuchAlgorithm"
    by code_simp+
  then show ?thesis
    using
      Algorithm_formats [of "[1, 8, 0]"
        "new_GpgData ''r'' [keyAlgorithmSignatureAttributesTag \<mapsto> [1, 8, 0]]"]
      Algorithm_formats [of "[4, 8, 0]"
        "new_GpgData ''r'' [keyAlgorithmDecryptionAttributesTag \<mapsto> [4, 8, 0]]"]
      Algorithm_formats [of "[5, 8]"
        "new_GpgData ''r'' [keyAlgorithmAuthenticationAttributesTag \<mapsto> [5, 8]]"]
    by (simp add: new_GpgData_def)
qed

subsection \<open>Fingerprint and ID\<close>

lemma length_sprintf_X: "n < 256 \<Longrightarrow> length (sprintf_X n) = (if n < 16 then 1 else 2)"
proof -
  assume n: "n < 256"
  then have d: "n div 16 < 16" by simp
  show ?thesis
    using d sprintf_X.simps [of n] sprintf_X.simps [of "n div 16"] by simp
qed

lemma length_sprintf_02X: "n < 256 \<Longrightarrow> length (sprintf_02X n) = 2"
  by (simp add: sprintf_02X_def Let_def length_sprintf_X)

lemma length_UpperCaseHexString: "length (UpperCaseHexString bs) = 2 * length bs"
proof (induction bs)
  case Nil
  then show ?case by (simp add: UpperCaseHexString_def)
next
  case (Cons b bs)
  have "unat b < 256"
    using unsigned_less [of b, where ?'a = nat] by simp
  with Cons show ?case
    by (simp add: UpperCaseHexString_def length_sprintf_02X)
qed

lemma UpperCaseHexString_append:
  "UpperCaseHexString (xs @ ys) = UpperCaseHexString xs @ UpperCaseHexString ys"
  by (simp add: UpperCaseHexString_def)

lemma drop_UpperCaseHexString:
  assumes "k \<le> length bs"
  shows "drop (2 * k) (UpperCaseHexString bs) = UpperCaseHexString (drop k bs)"
proof -
  have "UpperCaseHexString bs
          = UpperCaseHexString (take k bs) @ UpperCaseHexString (drop k bs)"
    by (simp flip: UpperCaseHexString_append)
  moreover have "length (UpperCaseHexString (take k bs)) = 2 * k"
    using assms by (simp add: length_UpperCaseHexString)
  ultimately show ?thesis by simp
qed

lemma go_slice_nat:
  "a \<le> b \<Longrightarrow> b \<le> length xs
     \<Longrightarrow> go_slice xs (int a) (int b) = Inr (take (b - a) (drop a xs))"
  by (simp add: go_slice_def)

text \<open>
  C7. For a key type of ordinal \<open>k\<close> and a fingerprint tag of at least \<open>(k + 1) * 20\<close>
  bytes, \<open>Fingerprint\<close> is the upper-case hexadecimal rendering of the 20 bytes at
  0-based offset \<open>k * 20\<close> (40 characters), and \<open>ID\<close> is the last 16 characters of it,
  the rendering of the last 8 of those bytes. For a 60-byte tag and the authentication
  key, \<open>Fingerprint\<close> renders the 0-based bytes 40 to 59.
\<close>

theorem Fingerprint_and_ID:
  assumes tag: "tlvValues g keyInformationTag = Some data"
    and k: "ordinal keyType = int k"
    and len: "(k + 1) * 20 \<le> length data"
  shows "Fingerprint (Some g) keyType
           = Inr (UpperCaseHexString (take 20 (drop (k * 20) data)))
       \<and> length (UpperCaseHexString (take 20 (drop (k * 20) data))) = 40
       \<and> ID (Some g) keyType
           = Inr (drop 24 (UpperCaseHexString (take 20 (drop (k * 20) data))))
       \<and> ID (Some g) keyType
           = Inr (UpperCaseHexString (take 8 (drop (k * 20 + 12) data)))
       \<and> (keyType = AuthenticationKey \<and> length data = 60 \<longrightarrow>
            Fingerprint (Some g) keyType = Inr (UpperCaseHexString (drop 40 data)))"
proof -
  have kl: "getKeyLen keyType keyFingerprintLen = (int k * 20, int k * 20 + 20)"
    by (simp add: getKeyLen_def keyFingerprintLen_def k Let_def)
  have get: "GetTag g keyInformationTag (int k * 20 + 20) = Inr data"
    using tag len by (simp add: GetTag_def)
  have "go_slice data (int (k * 20)) (int (k * 20 + 20))
          = Inr (take (k * 20 + 20 - k * 20) (drop (k * 20) data))"
    by (rule go_slice_nat) (use len in simp_all)
  then have sl: "go_slice data (int k * 20) (int k * 20 + 20)
                   = Inr (take 20 (drop (k * 20) data))"
    by simp
  have "go_slice data (int (k * 20 + 12)) (int (k * 20 + 20))
          = Inr (take (k * 20 + 20 - (k * 20 + 12)) (drop (k * 20 + 12) data))"
    by (rule go_slice_nat) (use len in simp_all)
  then have sl8: "go_slice data (int k * 20 + 20 - 8) (int k * 20 + 20)
                    = Inr (take 8 (drop (k * 20 + 12) data))"
    by (simp add: add.commute)
  have fp: "Fingerprint (Some g) keyType
              = Inr (UpperCaseHexString (take 20 (drop (k * 20) data)))"
    by (simp add: Fingerprint_def kl get sl bind_res_def)
  have id8: "ID (Some g) keyType = Inr (UpperCaseHexString (take 8 (drop (k * 20 + 12) data)))"
    using sl8 by (simp add: ID_def kl get bind_res_def Let_def)
  have l40: "length (UpperCaseHexString (take 20 (drop (k * 20) data))) = 40"
    using len by (simp add: length_UpperCaseHexString)
  have "drop (2 * 12) (UpperCaseHexString (take 20 (drop (k * 20) data)))
          = UpperCaseHexString (drop 12 (take 20 (drop (k * 20) data)))"
    using len by (intro drop_UpperCaseHexString) simp
  also have "drop 12 (take 20 (drop (k * 20) data)) = take 8 (drop (k * 20 + 12) data)"
    by (simp add: drop_take add.commute)
  finally have tail: "drop 24 (UpperCaseHexString (take 20 (drop (k * 20) data)))
                        = UpperCaseHexString (take 8 (drop (k * 20 + 12) data))"
    by simp
  have auth: "Fingerprint (Some g) keyType = Inr (UpperCaseHexString (drop 40 data))"
    if "keyType = AuthenticationKey" "length data = 60"
  proof -
    from that k have "k = 2" by simp
    with fp that show ?thesis by simp
  qed
  show ?thesis
    using fp id8 l40 tail auth by simp
qed

theorem Fingerprint_and_ID_witness:
  "Fingerprint
     (Some (new_GpgData ''r''
        [keyInformationTag \<mapsto> replicate 40 0 @
           [0xA0, 0xA1, 0xA2, 0xA3, 0xA4, 0xA5, 0xA6, 0xA7, 0xA8, 0xA9,
            0xAA, 0xAB, 0xAC, 0xAD, 0xAE, 0xAF, 0xB0, 0xB1, 0xB2, 0x03]]))
     AuthenticationKey
     = Inr ''A0A1A2A3A4A5A6A7A8A9AAABACADAEAFB0B1B203''
   \<and> ID
     (Some (new_GpgData ''r''
        [keyInformationTag \<mapsto> replicate 40 0 @
           [0xA0, 0xA1, 0xA2, 0xA3, 0xA4, 0xA5, 0xA6, 0xA7, 0xA8, 0xA9,
            0xAA, 0xAB, 0xAC, 0xAD, 0xAE, 0xAF, 0xB0, 0xB1, 0xB2, 0x03]]))
     AuthenticationKey
     = Inr ''ACADAEAFB0B1B203''"
proof -
  have hex: "UpperCaseHexString
               [0xA0, 0xA1, 0xA2, 0xA3, 0xA4, 0xA5, 0xA6, 0xA7, 0xA8, 0xA9,
                0xAA, 0xAB, 0xAC, 0xAD, 0xAE, 0xAF, 0xB0, 0xB1, 0xB2, 0x03]
               = ''A0A1A2A3A4A5A6A7A8A9AAABACADAEAFB0B1B203''"
    by code_simp
  show ?thesis
    using Fingerprint_and_ID [of
        "new_GpgData ''r''
          [keyInformationTag \<mapsto> replicate 40 0 @
             [0xA0, 0xA1, 0xA2, 0xA3, 0xA4, 0xA5, 0xA6, 0xA7, 0xA8, 0xA9,
              0xAA, 0xAB, 0xAC, 0xAD, 0xAE, 0xAF, 0xB0, 0xB1, 0xB2, 0x03]]"
        "replicate 40 0 @
             [0xA0, 0xA1, 0xA2, 0xA3, 0xA4, 0xA5, 0xA6, 0xA7, 0xA8, 0xA9,
              0xAA, 0xAB, 0xAC, 0xAD, 0xAE, 0xAF, 0xB0, 0xB1, 0xB2, 0x03]"
        AuthenticationKey 2]
    by (simp add: new_GpgData_def hex)
qed

subsection \<open>Origin\<close>

text \<open>
  C6. \<open>Origin\<close> fails with \<open>ErrKeyNotPresent\<close> when the key-origin tag is absent or
  has no bytes. When the tag is present and long enough (at least \<open>KeyTypeSize\<close> bytes,
  and the key type's offset inside it), \<open>Origin\<close> fails with \<open>ErrUnknownKeyOrigin\<close>
  exactly when the byte at the key type's offset exceeds \<open>KeyOriginLast\<close>, and
  otherwise returns that byte as the origin.
\<close>

theorem Origin_miss_and_range:
  "(tlvValues g keyOriginAttributesTag = None \<or> tlvValues g keyOriginAttributesTag = Some []
      \<longrightarrow> Origin KeyTypeSize KeyOriginLast (Some g) keyType = Inl ErrKeyNotPresent)
   \<and> (tlvValues g keyOriginAttributesTag = Some data \<and> data \<noteq> []
        \<and> KeyTypeSize \<le> int (length data) \<and> Offset keyType < int (length data)
      \<longrightarrow> (Origin KeyTypeSize KeyOriginLast (Some g) keyType = Inl ErrUnknownKeyOrigin
             \<longleftrightarrow> unat (data ! nat (Offset keyType)) > KeyOriginLast)
          \<and> (unat (data ! nat (Offset keyType)) \<le> KeyOriginLast
             \<longrightarrow> Origin KeyTypeSize KeyOriginLast (Some g) keyType
                   = Inr (unat (data ! nat (Offset keyType)))))"
proof -
  have off: "0 \<le> Offset keyType"
    by (cases keyType) (simp_all add: Offset_def)
  show ?thesis
    using off
    by (auto simp: Origin_def HasTag_def GetTag_def go_index_def bind_res_def Let_def)
qed

theorem Origin_miss_and_range_witness:
  "Origin 4 3 (Some (new_GpgData ''r'' Map.empty)) SignatureKey = Inl ErrKeyNotPresent
   \<and> Origin 4 3 (Some (new_GpgData ''r'' [keyOriginAttributesTag \<mapsto> []])) SignatureKey
       = Inl ErrKeyNotPresent
   \<and> Origin 4 3 (Some (new_GpgData ''r'' [keyOriginAttributesTag \<mapsto> [1, 2, 5, 0]]))
       DecryptionKey = Inr 2
   \<and> Origin 4 3 (Some (new_GpgData ''r'' [keyOriginAttributesTag \<mapsto> [1, 2, 5, 0]]))
       AuthenticationKey = Inl ErrUnknownKeyOrigin"
  using
    Origin_miss_and_range [of "new_GpgData ''r'' Map.empty" 4 3 SignatureKey "[]"]
    Origin_miss_and_range [of "new_GpgData ''r'' [keyOriginAttributesTag \<mapsto> []]"
      4 3 SignatureKey "[]"]
    Origin_miss_and_range [of "new_GpgData ''r'' [keyOriginAttributesTag \<mapsto> [1, 2, 5, 0]]"
      4 3 DecryptionKey "[1, 2, 5, 0]"]
    Origin_miss_and_range [of "new_GpgData ''r'' [keyOriginAttributesTag \<mapsto> [1, 2, 5, 0]]"
      4 3 AuthenticationKey "[1, 2, 5, 0]"]
  by (simp add: new_GpgData_def Offset_def)

section \<open>Properties of the extended-capabilities decoder\<close>

text \<open>
  C5. When the extended-capabilities tag is absent from the tag map,
  \<open>loadExtendedData\<close> returns no error, with the fields it resets at their defaults;
  on a record whose capability fields all hold their defaults (a fresh record) it
  returns the record unchanged, so every capability field keeps its default.
\<close>

theorem absent_capabilities_tag_keeps_defaults:
  assumes "tlvValues g extendedCapabilitiesTag = None"
  shows "(\<exists>g'. loadExtendedData SecureMessagingAlgorithmLast (Some g) = Inr g'
               \<and> SecureMessaging g' = NoSecureMessaging
               \<and> MaximumChallengeLength g' = 0
               \<and> MaximumCardholderCertificatesLength g' = 0
               \<and> MaximumSpecialDOsLength g' = 0
               \<and> \<not> PinBlock2Supported g' \<and> \<not> MSECommandSupported g')
         \<and> (capabilities_default g \<longrightarrow>
               loadExtendedData SecureMessagingAlgorithmLast (Some g) = Inr g)"
proof -
  let ?g0 = "g\<lparr>SecureMessaging := NoSecureMessaging,
               MaximumChallengeLength := 0,
               MaximumCardholderCertificatesLength := 0,
               MaximumSpecialDOsLength := 0,
               PinBlock2Supported := False,
               MSECommandSupported := False\<rparr>"
  have res: "loadExtendedData SecureMessagingAlgorithmLast (Some g) = Inr ?g0"
    using assms by (simp add: loadExtendedData_def GetTag_def)
  have same: "?g0 = g" if "capabilities_default g"
    using that by (simp add: capabilities_default_def)
  show ?thesis
    using res same by simp
qed

theorem absent_capabilities_tag_keeps_defaults_witness:
  "loadExtendedData 3 (Some (new_GpgData ''reader'' Map.empty))
     = Inr (new_GpgData ''reader'' Map.empty)
   \<and> capabilities_default (new_GpgData ''reader'' Map.empty)"
proof -
  have a: "tlvValues (new_GpgData ''reader'' Map.empty) extendedCapabilitiesTag = None"
    by (simp add: new_GpgData_def)
  have d: "capabilities_default (new_GpgData ''reader'' Map.empty)"
    by (simp add: new_GpgData_def capabilities_default_def NoSecureMessaging_def)
  from absent_capabilities_tag_keeps_defaults [OF a, of 3] d show ?thesis by simp
qed

lemma BigEndian_Uint16_two:
  "length bs = 2 \<Longrightarrow> \<exists>v. BigEndian_Uint16 bs = Inr v"
  by (simp add: BigEndian_Uint16_def)

lemma getByte_in_range:
  "1 \<le> i \<Longrightarrow> i \<le> int (length tag)
     \<Longrightarrow> getByteWith1BasedIndexing (Some tag) i = Inr (tag ! nat (i - 1))"
  by (simp add: getByteWith1BasedIndexing_def go_index_def)

lemma getBytes_pair:
  "1 \<le> i \<Longrightarrow> i + 1 \<le> int (length tag)
     \<Longrightarrow> \<exists>bs. getBytesWith1BasedIndexing (Some tag) i (i + 1) = Inr bs \<and> length bs = 2"
  by (auto simp: getBytesWith1BasedIndexing_def go_slice_def)

lemma setGetChallengeSupported_keeps:
  assumes "length bs = 2"
  shows "\<exists>g'. setGetChallengeSupported (Some g) c bs = Inr g'
              \<and> SecureMessagingSupported g' = SecureMessagingSupported g
              \<and> SecureMessaging g' = SecureMessaging g"
  using assms BigEndian_Uint16_two [OF assms]
  by (auto simp: setGetChallengeSupported_def bind_res_def)

text \<open>After the secure-messaging step the decoder of a 10-byte tag cannot fail.\<close>

lemma loadExtendedData_10:
  assumes tag: "tlvValues g extendedCapabilitiesTag = Some tag" and len: "length tag = 10"
  shows "\<exists>g0. SecureMessagingSupported g0 = SecureMessagingSupported g
              \<and> SecureMessaging g0 = NoSecureMessaging
              \<and> (case setSecureMessaging L (Some g0) (tag ! 0) (tag ! 1) of
                    Inl e \<Rightarrow> loadExtendedData L (Some g) = Inl e
                  | Inr g1 \<Rightarrow>
                      (\<exists>g'. loadExtendedData L (Some g) = Inr g'
                            \<and> SecureMessagingSupported g' = SecureMessagingSupported g1
                            \<and> SecureMessaging g' = SecureMessaging g1))"
proof -
  let ?g0 = "g\<lparr>SecureMessaging := NoSecureMessaging,
               MaximumChallengeLength := 0,
               MaximumCardholderCertificatesLength := 0,
               MaximumSpecialDOsLength := 0,
               PinBlock2Supported := False,
               MSECommandSupported := False\<rparr>"
  have get: "GetTag ?g0 extendedCapabilitiesTag 10 = Inr tag"
    using tag len by (simp add: GetTag_def)
  have b1: "getByteWith1BasedIndexing (Some tag) 1 = Inr (tag ! 0)"
    and b2: "getByteWith1BasedIndexing (Some tag) 2 = Inr (tag ! 1)"
    and b9: "getByteWith1BasedIndexing (Some tag) 9 = Inr (tag ! 8)"
    and b10: "getByteWith1BasedIndexing (Some tag) 10 = Inr (tag ! 9)"
    using len by (simp_all add: getByte_in_range)
  obtain bs34 where bs34: "getBytesWith1BasedIndexing (Some tag) 3 4 = Inr bs34" "length bs34 = 2"
    using getBytes_pair [of 3 tag] len by auto
  obtain bs56 where bs56: "getBytesWith1BasedIndexing (Some tag) 5 6 = Inr bs56" "length bs56 = 2"
    using getBytes_pair [of 5 tag] len by auto
  obtain bs78 where bs78: "getBytesWith1BasedIndexing (Some tag) 7 8 = Inr bs78" "length bs78 = 2"
    using getBytes_pair [of 7 tag] len by auto
  obtain v56 where v56: "BigEndian_Uint16 bs56 = Inr v56"
    using BigEndian_Uint16_two [OF bs56(2)] by auto
  obtain v78 where v78: "BigEndian_Uint16 bs78 = Inr v78"
    using BigEndian_Uint16_two [OF bs78(2)] by auto
  have step: "\<exists>g'. loadExtendedData L (Some g) = Inr g'
                   \<and> SecureMessagingSupported g' = SecureMessagingSupported g1
                   \<and> SecureMessaging g' = SecureMessaging g1"
    if sm: "setSecureMessaging L (Some ?g0) (tag ! 0) (tag ! 1) = Inr g1" for g1
  proof -
    obtain g2 where g2: "setGetChallengeSupported (Some g1) (tag ! 0) bs34 = Inr g2"
      "SecureMessagingSupported g2 = SecureMessagingSupported g1"
      "SecureMessaging g2 = SecureMessaging g1"
      using setGetChallengeSupported_keeps [OF bs34(2), of g1 "tag ! 0"] by auto
    show ?thesis
      using sm g2
      by (simp add: loadExtendedData_def get b1 b2 b9 b10 bs34 bs56 bs78 v56 v78
          bind_res_def Let_def)
  qed
  have fail: "loadExtendedData L (Some g) = Inl e"
    if sm: "setSecureMessaging L (Some ?g0) (tag ! 0) (tag ! 1) = Inl e" for e
    using sm by (simp add: loadExtendedData_def get b1 b2 bind_res_def Let_def)
  have "case setSecureMessaging L (Some ?g0) (tag ! 0) (tag ! 1) of
          Inl e \<Rightarrow> loadExtendedData L (Some g) = Inl e
        | Inr g1 \<Rightarrow>
            (\<exists>g'. loadExtendedData L (Some g) = Inr g'
                  \<and> SecureMessagingSupported g' = SecureMessagingSupported g1
                  \<and> SecureMessaging g' = SecureMessaging g1)"
    using step fail by (cases "setSecureMessaging L (Some ?g0) (tag ! 0) (tag ! 1)") simp_all
  moreover have "SecureMessagingSupported ?g0 = SecureMessagingSupported g"
    "SecureMessaging ?g0 = NoSecureMessaging"
    by simp_all
  ultimately show ?thesis by blast
qed

text \<open>
  C4. On a 10-byte extended-capabilities tag: when the secure-messaging bit of byte 1
  is set, \<open>loadExtendedData\<close> fails with \<open>ErrNoSuchAlgorithm\<close> exactly when byte 2
  exceeds \<open>SecureMessagingAlgorithmLast\<close>, and otherwise it succeeds with
  \<open>SecureMessagingSupported\<close> true and \<open>SecureMessaging\<close> byte 2; when the bit is
  clear it succeeds, \<open>SecureMessagingSupported\<close> is what it was before (false on a
  fresh record) and \<open>SecureMessaging\<close> is \<open>NoSecureMessaging\<close>, whatever byte 2 is.
\<close>

theorem secure_messaging_gating:
  assumes tag: "tlvValues g extendedCapabilitiesTag = Some tag" and len: "length tag = 10"
  shows "(tag ! 0 AND SecureMessaging_bit = SecureMessaging_bit \<longrightarrow>
            (loadExtendedData SecureMessagingAlgorithmLast (Some g) = Inl ErrNoSuchAlgorithm
               \<longleftrightarrow> tag ! 1 > SecureMessagingAlgorithmLast)
          \<and> (tag ! 1 \<le> SecureMessagingAlgorithmLast \<longrightarrow>
               (\<exists>g'. loadExtendedData SecureMessagingAlgorithmLast (Some g) = Inr g'
                     \<and> SecureMessagingSupported g' \<and> SecureMessaging g' = tag ! 1)))
       \<and> (tag ! 0 AND SecureMessaging_bit \<noteq> SecureMessaging_bit \<longrightarrow>
            (\<exists>g'. loadExtendedData SecureMessagingAlgorithmLast (Some g) = Inr g'
                  \<and> SecureMessagingSupported g' = SecureMessagingSupported g
                  \<and> SecureMessaging g' = NoSecureMessaging))"
proof -
  obtain g0 where g0: "SecureMessagingSupported g0 = SecureMessagingSupported g"
    "SecureMessaging g0 = NoSecureMessaging"
    and run: "case setSecureMessaging SecureMessagingAlgorithmLast (Some g0) (tag ! 0) (tag ! 1) of
                Inl e \<Rightarrow> loadExtendedData SecureMessagingAlgorithmLast (Some g) = Inl e
              | Inr g1 \<Rightarrow>
                  (\<exists>g'. loadExtendedData SecureMessagingAlgorithmLast (Some g) = Inr g'
                        \<and> SecureMessagingSupported g' = SecureMessagingSupported g1
                        \<and> SecureMessaging g' = SecureMessaging g1)"
    using loadExtendedData_10 [OF tag len, of SecureMessagingAlgorithmLast] by blast
  show ?thesis
    using run g0
    by (auto simp: setSecureMessaging_def not_less split: if_splits)
qed

theorem secure_messaging_gating_witness:
  "(\<exists>g'. loadExtendedData 3
            (Some (new_GpgData ''r'' [extendedCapabilitiesTag \<mapsto> [0x80, 2, 0, 0, 0, 0, 0, 0, 0, 0]]))
            = Inr g'
         \<and> SecureMessagingSupported g' \<and> SecureMessaging g' = 2)
   \<and> loadExtendedData 3
        (Some (new_GpgData ''r'' [extendedCapabilitiesTag \<mapsto> [0x80, 4, 0, 0, 0, 0, 0, 0, 0, 0]]))
        = Inl ErrNoSuchAlgorithm
   \<and> (\<exists>g'. loadExtendedData 3
            (Some (new_GpgData ''r'' [extendedCapabilitiesTag \<mapsto> [0x40, 9, 0, 0, 0, 0, 0, 0, 0, 0]]))
            = Inr g'
         \<and> SecureMessagingSupported g' = False \<and> SecureMessaging g' = NoSecureMessaging)"
  using
    secure_messaging_gating [of
      "new_GpgData ''r'' [extendedCapabilitiesTag \<mapsto> [0x80, 2, 0, 0, 0, 0, 0, 0, 0, 0]]"
      "[0x80, 2, 0, 0, 0, 0, 0, 0, 0, 0]" 3]
    secure_messaging_gating [of
      "new_GpgData ''r'' [extendedCapabilitiesTag \<mapsto> [0x80, 4, 0, 0, 0, 0, 0, 0, 0, 0]]"
      "[0x80, 4, 0, 0, 0, 0, 0, 0, 0, 0]" 3]
    secure_messaging_gating [of
      "new_GpgData ''r'' [extendedCapabilitiesTag \<mapsto> [0x40, 9, 0, 0, 0, 0, 0, 0, 0, 0]]"
      "[0x40, 9, 0, 0, 0, 0, 0, 0, 0, 0]" 3]
  by (simp add: new_GpgData_def SecureMessaging_bit_def)

section \<open>Properties of the name normalizer\<close>

lemma string_of_bytes_of_string: "string_of_bytes (bytes_of_string s) = s"
  by (induction s) (simp_all add: string_of_bytes_def bytes_of_string_def unat_of_nat)

lemma strings_Index_first:
  assumes "take (length sub) (drop n s) = sub"
    and "\<forall>p<n. take (length sub) (drop p s) \<noteq> sub"
  shows "strings_Index s sub = int n"
  using assms
proof (induction s arbitrary: n)
  case Nil
  then show ?case by (cases n) auto
next
  case (Cons c cs)
  show ?case
  proof (cases n)
    case 0
    with Cons.prems show ?thesis by simp
  next
    case (Suc m)
    have here: "take (length sub) (c # cs) \<noteq> sub"
      using Cons.prems(2) Suc by (metis drop0 zero_less_Suc)
    have occ: "take (length sub) (drop m cs) = sub"
      using Cons.prems(1) Suc by simp
    have before: "\<forall>p<m. take (length sub) (drop p cs) \<noteq> sub"
    proof (intro allI impI)
      fix p assume "p < m"
      then have "Suc p < n" using Suc by simp
      with Cons.prems(2) have "take (length sub) (drop (Suc p) (c # cs)) \<noteq> sub" by blast
      then show "take (length sub) (drop p cs) \<noteq> sub" by simp
    qed
    have "strings_Index cs sub = int m"
      using Cons.IH [OF occ before] .
    with here Suc show ?thesis by (simp add: Let_def)
  qed
qed

lemma strings_Index_none:
  assumes "\<forall>p. take (length sub) (drop p s) \<noteq> sub"
  shows "strings_Index s sub = - 1"
  using assms
proof (induction s)
  case Nil
  then show ?case by auto
next
  case (Cons c cs)
  have here: "take (length sub) (c # cs) \<noteq> sub"
    using Cons.prems by (metis drop0)
  have "\<forall>p. take (length sub) (drop p cs) \<noteq> sub"
  proof
    fix p
    from Cons.prems have "take (length sub) (drop (Suc p) (c # cs)) \<noteq> sub" by blast
    then show "take (length sub) (drop p cs) \<noteq> sub" by simp
  qed
  then have "strings_Index cs sub = - 1" by (rule Cons.IH)
  with here show ?case by (simp add: Let_def)
qed

lemma strings_Index_range:
  "- 1 \<le> strings_Index s sub
   \<and> (0 \<le> strings_Index s sub \<longrightarrow> strings_Index s sub + int (length sub) \<le> int (length s))"
proof (induction s)
  case Nil
  then show ?case by simp
next
  case (Cons c cs)
  show ?case
  proof (cases "take (length sub) (c # cs) = sub")
    case True
    then have "length (take (length sub) (c # cs)) = length sub"
      by simp
    then have "length sub \<le> length (c # cs)"
      by simp
    with True show ?thesis by simp
  next
    case False
    with Cons show ?thesis by (auto simp: Let_def)
  qed
qed

text \<open>An input has a first occurrence of the marker or none: the two cases of C3 are all.\<close>

lemma marker_first_or_none:
  "(\<forall>p. \<not> marker_at s p)
   \<or> (\<exists>pre post. s = pre @ ''<<'' @ post \<and> (\<forall>p<length pre. \<not> marker_at s p))"
proof (cases "\<exists>p. marker_at s p")
  case False
  then show ?thesis by simp
next
  case True
  define n where "n = (LEAST p. marker_at s p)"
  have at: "marker_at s n"
    unfolding n_def using True by (metis LeastI)
  have before: "\<forall>p<n. \<not> marker_at s p"
    unfolding n_def using not_less_Least by blast
  have "drop n s = take 2 (drop n s) @ drop 2 (drop n s)"
    by (simp only: append_take_drop_id)
  also have "take 2 (drop n s) = ''<<''"
    using at by (simp add: marker_at_def)
  also have "drop 2 (drop n s) = drop (n + 2) s"
    by (simp add: add.commute)
  finally have tail: "drop n s = ''<<'' @ drop (n + 2) s" .
  then have "n \<le> length s"
    by (metis append_is_Nil_conv drop_all list.distinct(1) nat_le_linear)
  then have len: "length (take n s) = n"
    by simp
  have "s = take n s @ ''<<'' @ drop (n + 2) s"
    using tail by (metis append_take_drop_id)
  with before len show ?thesis
    by metis
qed

text \<open>
  C3. \<open>ParseCardHolderName\<close> maps the input of no bytes to \<open>[not set]\<close>. For an input
  that is not empty: when \<open><<\<close> occurs, first at the end of \<open>pre\<close> with \<open>post\<close> after
  it, the result is \<open>post\<close>, a newline when \<open>post\<close> is not empty, then \<open>pre\<close> with every
  \<open><\<close> replaced by a space; when \<open><<\<close> does not occur, the result is the whole input
  with every \<open><\<close> replaced by a space. \<open>DOE<<JOHN\<close> gives \<open>JOHN\<close>, newline, \<open>DOE\<close>;
  \<open>DOE\<close> gives \<open>DOE\<close>; \<open>VAN<DER<BERG<<ANNA\<close> gives \<open>ANNA\<close>, newline,
  \<open>VAN DER BERG\<close>.
\<close>

theorem ParseCardHolderName_format:
  "ParseCardHolderName [] = ''[not set]''
   \<and> (name \<noteq> [] \<and> string_of_bytes name = pre @ ''<<'' @ post
        \<and> (\<forall>p<length pre. \<not> marker_at (string_of_bytes name) p)
      \<longrightarrow> ParseCardHolderName name
            = post @ (if post \<noteq> [] then ''\<newline>'' else [])
              @ strings_ReplaceAll pre (CHR ''<'') (CHR '' ''))
   \<and> (name \<noteq> [] \<and> (\<forall>p. \<not> marker_at (string_of_bytes name) p)
      \<longrightarrow> ParseCardHolderName name
            = strings_ReplaceAll (string_of_bytes name) (CHR ''<'') (CHR '' ''))
   \<and> ParseCardHolderName (bytes_of_string ''DOE<<JOHN'') = ''JOHN\<newline>DOE''
   \<and> ParseCardHolderName (bytes_of_string ''DOE'') = ''DOE''
   \<and> ParseCardHolderName (bytes_of_string ''VAN<DER<BERG<<ANNA'')
       = ''ANNA\<newline>VAN DER BERG''"
proof -
  have empty: "ParseCardHolderName [] = ''[not set]''"
    by (simp add: ParseCardHolderName_def NameNotSet_def)
  have found: "ParseCardHolderName name
                 = post @ (if post \<noteq> [] then ''\<newline>'' else [])
                   @ strings_ReplaceAll pre (CHR ''<'') (CHR '' '')"
    if ne: "name \<noteq> []" and s: "string_of_bytes name = pre @ ''<<'' @ post"
      and first: "\<forall>p<length pre. \<not> marker_at (string_of_bytes name) p"
  proof -
    have occ: "take 2 (drop (length pre) (string_of_bytes name)) = ''<<''"
      by (simp add: s)
    have bef: "\<forall>p<length pre. take 2 (drop p (string_of_bytes name)) \<noteq> ''<<''"
      using first by (simp add: marker_at_def)
    have i: "strings_Index (string_of_bytes name) ''<<'' = int (length pre)"
      using strings_Index_first [of "''<<''" "length pre" "string_of_bytes name"] occ bef
      by (simp add: numeral_2_eq_2)
    have len: "length (string_of_bytes name) = length pre + 2 + length post"
      by (simp add: s)
    have sne: "string_of_bytes name \<noteq> []"
      by (simp add: s)
    have n2: "nat (int (length pre) + 2) = length pre + 2"
      by (simp add: nat_add_distrib)
    have "ParseCardHolderName name
            = drop (length pre + 2) (string_of_bytes name)
              @ (if post \<noteq> [] then ''\<newline>'' else [])
              @ strings_ReplaceAll (take (length pre) (string_of_bytes name)) (CHR ''<'') (CHR '' '')"
      using ne sne
      by (simp add: ParseCardHolderName_def Let_def i len suffixLen_def suffix_def n2)
    then show ?thesis by (simp add: s)
  qed
  have missing: "ParseCardHolderName name
                   = strings_ReplaceAll (string_of_bytes name) (CHR ''<'') (CHR '' '')"
    if ne: "name \<noteq> []" and none: "\<forall>p. \<not> marker_at (string_of_bytes name) p"
  proof -
    have "\<forall>p. take 2 (drop p (string_of_bytes name)) \<noteq> ''<<''"
      using none by (simp add: marker_at_def)
    then have "strings_Index (string_of_bytes name) ''<<'' = - 1"
      using strings_Index_none [of "''<<''" "string_of_bytes name"]
      by (simp add: numeral_2_eq_2)
    then show ?thesis
      using ne by (simp add: ParseCardHolderName_def Let_def string_of_bytes_def)
  qed
  have ex1: "ParseCardHolderName (bytes_of_string ''DOE<<JOHN'') = ''JOHN\<newline>DOE''"
    by code_simp
  have ex2: "ParseCardHolderName (bytes_of_string ''DOE'') = ''DOE''"
    by code_simp
  have ex3: "ParseCardHolderName (bytes_of_string ''VAN<DER<BERG<<ANNA'')
               = ''ANNA\<newline>VAN DER BERG''"
    by code_simp
  show ?thesis
    using empty found missing ex1 ex2 ex3 by blast
qed

theorem ParseCardHolderName_format_witness:
  "ParseCardHolderName (bytes_of_string ''DOE<<JOHN'') = ''JOHN\<newline>DOE''
   \<and> ParseCardHolderName (bytes_of_string ''SMITH<<'') = ''SMITH''
   \<and> ParseCardHolderName (bytes_of_string ''VAN<DER'') = ''VAN DER''"
proof -
  have ne: "bytes_of_string ''DOE<<JOHN'' \<noteq> []" "bytes_of_string ''SMITH<<'' \<noteq> []"
    "bytes_of_string ''VAN<DER'' \<noteq> []"
    by (simp_all add: bytes_of_string_def)
  have f1: "\<forall>p<length ''DOE''. \<not> marker_at ''DOE<<JOHN'' p"
    by (simp add: marker_at_def numeral_3_eq_3 less_Suc_eq)
  have f2: "\<forall>p<length ''SMITH''. \<not> marker_at ''SMITH<<'' p"
    by (simp add: marker_at_def eval_nat_numeral less_Suc_eq)
  have f3: "\<forall>p. \<not> marker_at ''VAN<DER'' p"
  proof
    fix p
    have "p < (7::nat) \<or> 7 \<le> p" by linarith
    then show "\<not> marker_at ''VAN<DER'' p"
      by (auto simp: marker_at_def eval_nat_numeral less_Suc_eq)
  qed
  show ?thesis
    using ParseCardHolderName_format [of "bytes_of_string ''DOE<<JOHN''" "''DOE''" "''JOHN''"]
      ParseCardHolderName_format [of "bytes_of_string ''SMITH<<''" "''SMITH''" "[]"]
      ParseCardHolderName_format [of "bytes_of_string ''VAN<DER''" "[]" "[]"]
      ne f1 f2 f3
    by (simp add: string_of_bytes_of_string strings_ReplaceAll_def)
qed

section \<open>Properties of the construction pass\<close>

text \<open>
  On an application identifier of at least 14 bytes the pass derives the fields from
  the bytes the source names and goes on to the capability decoder.
\<close>

lemma take1_drop: "i < length xs \<Longrightarrow> take (Suc 0) (drop i xs) = [xs ! i]"
  by (metis Cons_nth_drop_Suc take0 take_Suc_Cons)

lemma update_on_long_aid:
  assumes tag: "tlvValues g ''6E.4F'' = Some aid" and len: "14 \<le> length aid"
  shows "update L g =
             loadExtendedData L (Some (g
               \<lparr>Serial := sprintf_X (unat (aid ! 10)) @ sprintf_02X (unat (aid ! 11))
                    @ sprintf_02X (unat (aid ! 12)) @ sprintf_02X (unat (aid ! 13)),
                SerialInt := ucast (aid ! 13) OR push_bit 8 (ucast (aid ! 12))
                    OR push_bit 16 (ucast (aid ! 11)) OR push_bit 24 (ucast (aid ! 10)),
                LongName := Reader g @ '' SN ''
                    @ (sprintf_X (unat (aid ! 10)) @ sprintf_02X (unat (aid ! 11))
                       @ sprintf_02X (unat (aid ! 12)) @ sprintf_02X (unat (aid ! 13)))
                    @ '' OpenPGP '' @ sprintf_X (unat (aid ! 6)) @ ''.''
                    @ sprintf_X (unat (aid ! 7)),
                CardHolder := ParseCardHolderName
                    (case tlvValues g ''65.5B'' of None \<Rightarrow> [] | Some bs \<Rightarrow> bs),
                Rid := UpperCaseHexString (take 5 aid),
                Application := UpperCaseHexString [aid ! 5]
                    @ (if aid ! 5 = 1 then '' (OpenPGP)'' else []),
                Version := sprintf_X (unat (aid ! 6)) @ ''.'' @ sprintf_X (unat (aid ! 7)),
                Manufacturer := sprintf_02X (unat (aid ! 8)) @ sprintf_02X (unat (aid ! 9))
                    @ (if aid ! 8 = 0 \<and> aid ! 9 = 6 then '' (YubiCo)'' else [])\<rparr>))"
proof -
  have get: "GetTag g ''6E.4F'' 13 = Inr aid"
    using tag len by (simp add: GetTag_def)
  have idx: "go_index aid (int i) = Inr (aid ! i)" if "i < 14" for i
    using that len by (simp add: go_index_def)
  have i: "go_index aid 5 = Inr (aid ! 5)" "go_index aid 6 = Inr (aid ! 6)"
    "go_index aid 7 = Inr (aid ! 7)" "go_index aid 8 = Inr (aid ! 8)"
    "go_index aid 9 = Inr (aid ! 9)" "go_index aid 10 = Inr (aid ! 10)"
    "go_index aid 11 = Inr (aid ! 11)" "go_index aid 12 = Inr (aid ! 12)"
    "go_index aid 13 = Inr (aid ! 13)"
    using idx [of 5] idx [of 6] idx [of 7] idx [of 8] idx [of 9] idx [of 10] idx [of 11]
      idx [of 12] idx [of 13]
    by simp_all
  have s1: "go_slice aid 10 14 = Inr (take 4 (drop 10 aid))"
    and s2: "go_slice aid 0 5 = Inr (take 5 aid)"
    and s3: "go_slice aid 5 6 = Inr [aid ! 5]"
    using len by (simp_all add: go_slice_def take1_drop)
  have ch: "(case GetTag g' ''65.5B'' 0 of Inl _ \<Rightarrow> [] | Inr bs \<Rightarrow> bs)
              = (case tlvValues g ''65.5B'' of None \<Rightarrow> [] | Some bs \<Rightarrow> bs)"
    if "tlvValues g' = tlvValues g" for g'
    using that by (simp add: GetTag_def split: option.splits)
  have be: "BigEndian_Uint32 (take 4 (drop 10 aid))
              = Inr (ucast (aid ! 13) OR push_bit 8 (ucast (aid ! 12))
                     OR push_bit 16 (ucast (aid ! 11)) OR push_bit 24 (ucast (aid ! 10)))"
    using len by (simp add: BigEndian_Uint32_def)
  show ?thesis
    by (simp add: update_def get i s1 s2 s3 ch be bind_res_def Let_def)
qed

text \<open>
  C2. The pass asks \<open>GetTag\<close> for an application identifier of at least 13 bytes
  ("make sure aid is long enough") and then reads \<open>aid[13]\<close> and \<open>aid[10:14]\<close>, the
  fourteenth byte. On an identifier of exactly 13 bytes the pass does not complete: the
  index expression \<open>aid[13]\<close> is out of range.
\<close>

theorem update_13_byte_aid_panics:
  assumes "tlvValues g ''6E.4F'' = Some aid" and "length aid = 13"
  shows "update SecureMessagingAlgorithmLast g = Inl RuntimePanic"
  using assms by (simp add: update_def GetTag_def go_index_def bind_res_def)

theorem update_13_byte_aid_panics_witness:
  "update 3 (new_GpgData ''r''
       [''6E.4F'' \<mapsto> [0xD2, 0x76, 0x00, 0x01, 0x24, 0x01, 0x03, 0x04, 0x00, 0x06,
                         0x12, 0x34, 0x56]])
     = Inl RuntimePanic"
  using update_13_byte_aid_panics [of
      "new_GpgData ''r''
         [''6E.4F'' \<mapsto> [0xD2, 0x76, 0x00, 0x01, 0x24, 0x01, 0x03, 0x04, 0x00, 0x06,
                           0x12, 0x34, 0x56]]"
      "[0xD2, 0x76, 0x00, 0x01, 0x24, 0x01, 0x03, 0x04, 0x00, 0x06, 0x12, 0x34, 0x56]" 3]
  by (simp add: new_GpgData_def)

end
